theory Spec2Isabelle
  imports Main "HOL-Library.Sublist"
begin

section \<open>Configuration loader\<close>

text \<open>
  The configuration module reads \<^verbatim>\<open>process.env\<close> once, after \<^verbatim>\<open>dotenv.config()\<close>
  has filled it. The environment is a finite map from variable names to strings; a
  variable that is not set reads as \<^verbatim>\<open>undefined\<close>, which is \<open>None\<close> here.
\<close>

type_synonym process_env = "string \<rightharpoonup> string"

text \<open>
  \<^verbatim>\<open>process.env.PORT || 3000\<close> is either the string of the environment or the
  number 3000.
\<close>

datatype port = PortString string | PortNumber nat

record Config =
  PORT :: port
  NODE_ENV :: "string option"
  WHITELIST_ORIGINS :: "string list"

text \<open>
  JavaScript truthiness of a value of type \<^verbatim>\<open>string | undefined\<close>: \<^verbatim>\<open>undefined\<close> and
  the empty string are falsy, every other string is truthy.
\<close>

definition truthy :: "string option \<Rightarrow> bool" where
  "truthy v = (case v of None \<Rightarrow> False | Some s \<Rightarrow> s \<noteq> [])"

definition config :: "process_env \<Rightarrow> Config" where
  "config env =
     \<lparr> PORT = (case env ''PORT'' of
                 None \<Rightarrow> PortNumber 3000
               | Some s \<Rightarrow> if s \<noteq> [] then PortString s else PortNumber 3000),
       NODE_ENV = env ''NODE_ENV'',
       WHITELIST_ORIGINS =
         (case env ''NODE_ORIGIN'' of
            None \<Rightarrow> [''http://localhost:5173'']
          | Some s \<Rightarrow> if s \<noteq> [] then [''http://localhost:5173'', s]
                     else [''http://localhost:5173'']) \<rparr>"

section \<open>Observable effects\<close>

text \<open>
  The statements of the server module are calls into the runtime: \<^verbatim>\<open>console.log\<close>,
  \<^verbatim>\<open>process.exit\<close>, the callback handed to the CORS origin function, the route
  mounter and \<^verbatim>\<open>app.listen\<close>. A run is observed as the sequence of calls that
  completed, together with how the run ended. An \<^verbatim>\<open>Error\<close> object is identified
  with its message.
\<close>

datatype call =
    ConsoleLog "string list"
  | ProcessExit nat
  | Callback "string option" bool
  | MindSyncRoute
  | AppListen port

datatype outcome = Returned | Thrown string | Exited nat

text \<open>
  Which calls throw is a parameter of a run (\<open>Some e\<close>: the call throws \<open>e\<close> and
  has no effect). Two calls never throw: \<^verbatim>\<open>console.log\<close> of strings, since Node's
  console ignores the errors of its stream, and \<^verbatim>\<open>process.exit\<close>, which ends the
  process and never returns, so that nothing after it runs.
\<close>

type_synonym throws = "call \<Rightarrow> string option"

fun exec :: "throws \<Rightarrow> call list \<Rightarrow> call list \<times> outcome" where
  "exec thr [] = ([], Returned)"
| "exec thr (ProcessExit n # cs) = ([ProcessExit n], Exited n)"
| "exec thr (ConsoleLog m # cs) =
     (case exec thr cs of (tr, out) \<Rightarrow> (ConsoleLog m # tr, out))"
| "exec thr (c # cs) =
     (case thr c of
        Some e \<Rightarrow> ([], Thrown e)
      | None \<Rightarrow> (case exec thr cs of (tr, out) \<Rightarrow> (c # tr, out)))"


definition no_throw :: throws where
  "no_throw = (\<lambda>c. None)"

section \<open>CORS policy evaluator\<close>

text \<open>
  \<^verbatim>\<open>corOptions.origin(origin, callback)\<close>. The origin is \<^verbatim>\<open>string | undefined\<close>;
  \<^verbatim>\<open>!origin\<close> holds for \<^verbatim>\<open>undefined\<close> and for the empty string. The function is the
  sequence of calls it makes: on denial the callback first, the log second.
\<close>

text \<open>A template literal prints \<^verbatim>\<open>undefined\<close> as the word itself.\<close>

definition template :: "string option \<Rightarrow> string" where
  "template v = (case v of None \<Rightarrow> ''undefined'' | Some s \<Rightarrow> s)"

definition cors_message :: "string option \<Rightarrow> string" where
  "cors_message origin = ''CORS Error: '' @ template origin @ '' is not allowed by CORS''"

definition cors_allows :: "Config \<Rightarrow> string option \<Rightarrow> bool" where
  "cors_allows cfg origin =
     (NODE_ENV cfg = Some ''development'' \<or>
      \<not> truthy origin \<or>
      (case origin of None \<Rightarrow> False | Some s \<Rightarrow> s \<in> set (WHITELIST_ORIGINS cfg)))"

definition corOptions_origin :: "Config \<Rightarrow> string option \<Rightarrow> call list" where
  "corOptions_origin cfg origin =
     (if cors_allows cfg origin then [Callback None True]
      else [Callback (Some (cors_message origin)) False,
            ConsoleLog [cors_message origin]])"

section \<open>Rate limiter\<close>

datatype json = JBool bool | JString string | JObject "(string \<times> json) list"

record options =
  windowMs :: nat
  limit :: nat
  standardHeaders :: string
  legacyHeaders :: bool
  message :: json

definition limiter :: options where
  "limiter =
     \<lparr> windowMs = 60000,
       limit = 60,
       standardHeaders = ''draft-8'',
       legacyHeaders = False,
       message = JObject [(''error'',
         JString ''You have sent too many request in a given amount of time. Please try again later.'')] \<rparr>"

text \<open>
  A request as the stages see it: method, path (without the query string), headers
  under their lower-case names, the address of the client and the time of arrival in
  milliseconds.
\<close>

record request =
  req_method :: string
  req_path :: string
  req_headers :: "string \<rightharpoonup> string"
  req_ip :: string
  req_time :: nat

record response =
  statusCode :: nat
  body :: "json option"

text \<open>
  What a stage of the chain does with a request: pass it on (\<^verbatim>\<open>next()\<close>), pass an
  error on (\<^verbatim>\<open>next(err)\<close>), answer it, or leave it unanswered.
\<close>

datatype step = Next | NextErr string | Send response | Pending

record entry =
  count :: nat
  windowStart :: nat

type_synonym store = "string \<rightharpoonup> entry"

text \<open>
  Modelled from the spec: the middleware that \<^verbatim>\<open>rateLimit\<close> of the package
  express-rate-limit returns is not part of the sources; only its options are. Per
  client key (the address of the client): an absent entry, or one whose window has
  elapsed, is replaced by a fresh entry with count 1 and a new window start; otherwise
  the count is incremented. A request whose count after the increment exceeds the
  limit is answered with the configured message and not passed on; the status 429 is
  the package's default.
\<close>

definition hit :: "options \<Rightarrow> store \<Rightarrow> string \<Rightarrow> nat \<Rightarrow> entry" where
  "hit opts st key now =
     (case st key of
        None \<Rightarrow> \<lparr> count = 1, windowStart = now \<rparr>
      | Some e \<Rightarrow>
          if windowStart e + windowMs opts \<le> now then \<lparr> count = 1, windowStart = now \<rparr>
          else e \<lparr> count := count e + 1 \<rparr>)"

definition rateLimit :: "options \<Rightarrow> store \<Rightarrow> request \<Rightarrow> step \<times> store" where
  "rateLimit opts st req =
     (let e = hit opts st (req_ip req) (req_time req)
      in (if limit opts < count e
          then Send \<lparr> statusCode = 429, body = Some (message opts) \<rparr>
          else Next,
          st (req_ip req \<mapsto> e)))"

text \<open>Successive requests through the limiter, the store threaded from one to the next.\<close>

fun serve :: "options \<Rightarrow> store \<Rightarrow> request list \<Rightarrow> step list" where
  "serve opts st [] = []"
| "serve opts st (r # rs) =
     (case rateLimit opts st r of (s, st') \<Rightarrow> s # serve opts st' rs)"

section \<open>Middleware pipeline and routes\<close>

datatype handler = HealthHandler | AuthRoute

datatype layer =
    Cors
  | ExpressJson
  | ExpressUrlencoded bool
  | CookieParser
  | Compression nat
  | Helmet
  | RateLimit options
  | Mount string handler

text \<open>\<^verbatim>\<open>app.use\<close> appends a layer to the stack of the application.\<close>

definition app_use :: "layer \<Rightarrow> layer list \<Rightarrow> layer list" where
  "app_use l stack = stack @ [l]"

definition express :: "layer list" where
  "express = []"

text \<open>The application after the seven \<^verbatim>\<open>app.use\<close> statements of the server module.\<close>

definition app :: "layer list" where
  "app =
     (let a = express;
          a = app_use Cors a;
          a = app_use ExpressJson a;
          a = app_use (ExpressUrlencoded True) a;
          a = app_use CookieParser a;
          a = app_use (Compression 1024) a;
          a = app_use Helmet a;
          a = app_use (RateLimit limiter) a
      in a)"

definition mindSyncRoute :: "layer list \<Rightarrow> layer list" where
  "mindSyncRoute stack =
     (let a = app_use (Mount ''/health'' HealthHandler) stack;
          a = app_use (Mount ''/api/v1'' AuthRoute) a
      in a)"

text \<open>
  What is not in the sources is a parameter: what the body parsers, the cookie parser,
  compression, the security headers and the external route table do with a request
  (\<open>pk_stage\<close>), and whether Express finds a request fresh with respect to the body
  about to be sent (\<^verbatim>\<open>req.fresh\<close>: the cache validators of the request, such as
  \<^verbatim>\<open>If-None-Match\<close>, match the response; \<open>pk_fresh\<close>).
\<close>

record packages =
  pk_stage :: "layer \<Rightarrow> request \<Rightarrow> step"
  pk_fresh :: "request \<Rightarrow> json \<Rightarrow> bool"

text \<open>
  Modelled from the spec: the wrapper of the cors package around the origin function
  is not part of the sources. An error handed to the callback goes to the error
  channel of the pipeline and ends the traversal for that request. An allowed request
  is passed on, except a request of method OPTIONS: the package takes it for a
  preflight and, by its defaults, answers it itself with status 204 and no body.
\<close>

definition cors :: "Config \<Rightarrow> request \<Rightarrow> step" where
  "cors cfg req =
     (case corOptions_origin cfg (req_headers req ''origin'') of
        Callback (Some e) ok # cs \<Rightarrow> NextErr e
      | Callback None True # cs \<Rightarrow>
          if req_method req = ''OPTIONS'' then Send \<lparr> statusCode = 204, body = None \<rparr>
          else Next
      | Callback None False # cs \<Rightarrow> Next
      | _ \<Rightarrow> Pending)"

text \<open>
  \<^verbatim>\<open>res.send\<close> is Express's. It leaves the status as it finds it and sends the
  body, with two exceptions: a GET or HEAD request that Express finds fresh is answered
  with status 304 and no body, and a HEAD request gets no body.
\<close>

definition res_send :: "packages \<Rightarrow> request \<Rightarrow> response \<Rightarrow> json \<Rightarrow> response" where
  "res_send pk req res b =
     (if (req_method req = ''GET'' \<or> req_method req = ''HEAD'') \<and> pk_fresh pk req b
      then res \<lparr> statusCode := 304, body := None \<rparr>
      else if req_method req = ''HEAD'' then res \<lparr> body := None \<rparr>
      else res \<lparr> body := Some b \<rparr>)"

text \<open>
  The health responder: \<^verbatim>\<open>res.send\<close> of the fixed object on the response as it
  arrives; the handler never sets the status, which Node initialises to 200.
\<close>

definition health_payload :: json where
  "health_payload = JObject [(''status'', JBool True), (''message'', JString ''MindSync is OK!'')]"

definition fresh_response :: response where
  "fresh_response = \<lparr> statusCode = 200, body = None \<rparr>"

definition health_handler :: "packages \<Rightarrow> request \<Rightarrow> response \<Rightarrow> response" where
  "health_handler pk req res = res_send pk req res health_payload"

text \<open>
  A layer mounted with \<^verbatim>\<open>app.use(path, fn)\<close> runs for every method, on the mount
  path itself and on every path below it; Express compares the path without regard to
  the case of its letters.
\<close>

definition lower :: "char \<Rightarrow> char" where
  "lower c =
     (case map_of (zip ''ABCDEFGHIJKLMNOPQRSTUVWXYZ'' ''abcdefghijklmnopqrstuvwxyz'') c of
        None \<Rightarrow> c
      | Some d \<Rightarrow> d)"

definition lowercase :: "string \<Rightarrow> string" where
  "lowercase s = map lower s"

definition mount_matches :: "string \<Rightarrow> string \<Rightarrow> bool" where
  "mount_matches m p =
     (lowercase p = lowercase m \<or> prefix (lowercase m @ ''/'') (lowercase p))"

fun run_layer :: "Config \<Rightarrow> packages \<Rightarrow> store \<Rightarrow> request \<Rightarrow> layer \<Rightarrow> step \<times> store" where
  "run_layer cfg pk st req Cors = (cors cfg req, st)"
| "run_layer cfg pk st req (RateLimit opts) = rateLimit opts st req"
| "run_layer cfg pk st req (Mount m h) =
     (if mount_matches m (req_path req)
      then (case h of
              HealthHandler \<Rightarrow> (Send (health_handler pk req fresh_response), st)
            | AuthRoute \<Rightarrow> (pk_stage pk (Mount m h) req, st))
      else (Next, st))"
| "run_layer cfg pk st req l = (pk_stage pk l req, st)"

fun run_layers ::
  "Config \<Rightarrow> packages \<Rightarrow> store \<Rightarrow> request \<Rightarrow> layer list \<Rightarrow> step \<times> store" where
  "run_layers cfg pk st req [] = (Next, st)"
| "run_layers cfg pk st req (l # ls) =
     (case run_layer cfg pk st req l of
        (Next, st') \<Rightarrow> run_layers cfg pk st' req ls
      | (s, st') \<Rightarrow> (s, st'))"

text \<open>The server: the middleware chain, then the routes mounted at startup.\<close>

definition handle :: "Config \<Rightarrow> packages \<Rightarrow> store \<Rightarrow> request \<Rightarrow> step \<times> store" where
  "handle cfg pk st req = run_layers cfg pk st req (mindSyncRoute app)"

section \<open>Lifecycle controller\<close>









section \<open>Concrete configurations, requests and runs\<close>

definition production :: Config where
  "production = config [''NODE_ENV'' \<mapsto> ''production'']"

definition development :: Config where
  "development = config [''NODE_ENV'' \<mapsto> ''development'']"

text \<open>
  Third-party stages that pass every request on, and an Express that finds a request
  fresh when it carries \<^verbatim>\<open>If-None-Match: *\<close>.
\<close>

definition pass_all :: packages where
  "pass_all = \<lparr> pk_stage = (\<lambda>l req. Next),
                 pk_fresh = (\<lambda>req b. req_headers req ''if-none-match'' = Some ''*'') \<rparr>"

definition probe :: request where
  "probe = \<lparr> req_method = ''GET'', req_path = ''/health'', req_headers = Map.empty,
             req_ip = ''203.0.113.7'', req_time = 0 \<rparr>"

definition foreign_get :: request where
  "foreign_get = probe \<lparr> req_headers := [''origin'' \<mapsto> ''http://evil.example''] \<rparr>"

definition conditional_get :: request where
  "conditional_get = probe \<lparr> req_headers := [''if-none-match'' \<mapsto> ''*''] \<rparr>"

definition head_probe :: request where
  "head_probe = probe \<lparr> req_method := ''HEAD'' \<rparr>"

definition options_probe :: request where
  "options_probe = probe \<lparr> req_method := ''OPTIONS'' \<rparr>"

definition local_delete :: request where
  "local_delete = \<lparr> req_method = ''DELETE'', req_path = ''/Health/Live'',
                    req_headers = [''origin'' \<mapsto> ''http://localhost:5173''],
                    req_ip = ''203.0.113.7'', req_time = 0 \<rparr>"

text \<open>The answer of the limiter to a request over the limit.\<close>

definition too_many :: response where
  "too_many = \<lparr> statusCode = 429, body = Some (JObject [(''error'',
     JString ''You have sent too many request in a given amount of time. Please try again later.'')]) \<rparr>"

text \<open>
  Sixty-one requests of one client at the same instant, and a store in which the
  client has an entry over the limit whose window has elapsed by then.
\<close>

definition burst :: "request list" where
  "burst = replicate 61 \<lparr> req_method = ''GET'', req_path = ''/api/v1/login'',
                          req_headers = Map.empty,
                          req_ip = ''203.0.113.7'', req_time = 90000 \<rparr>"

definition stale :: store where
  "stale = [''203.0.113.7'' \<mapsto> \<lparr> count = 75, windowStart = 0 \<rparr>]"

text \<open>A store in which the client is half way through its quota, in a running window.\<close>

definition halfway :: store where
  "halfway = [''203.0.113.7'' \<mapsto> \<lparr> count = 30, windowStart = 60000 \<rparr>]"


section \<open>Configuration loader: properties\<close>

text \<open>
  Claim C7, amended. The allowed-origins sequence is the fixed local default followed by
  the custom origin when the variable \<^verbatim>\<open>NODE_ORIGIN\<close> is present and not empty, and
  the fixed local default alone when the variable is absent or empty. The loader is a
  total function with no error result, so absence is never an error.
\<close>

theorem config_whitelist_origins:
  "(env ''NODE_ORIGIN'' = Some s \<and> s \<noteq> [] \<longrightarrow>
      WHITELIST_ORIGINS (config env) = [''http://localhost:5173'', s]) \<and>
   (env ''NODE_ORIGIN'' = None \<or> env ''NODE_ORIGIN'' = Some [] \<longrightarrow>
      WHITELIST_ORIGINS (config env) = [''http://localhost:5173''])"
  by (auto simp: config_def)

theorem config_whitelist_origins_witness:
  "WHITELIST_ORIGINS (config [''NODE_ORIGIN'' \<mapsto> ''https://mindsync.app'']) =
     [''http://localhost:5173'', ''https://mindsync.app''] \<and>
   WHITELIST_ORIGINS (config Map.empty) = [''http://localhost:5173'']"
  using config_whitelist_origins
      [of "[''NODE_ORIGIN'' \<mapsto> ''https://mindsync.app'']" "''https://mindsync.app''"]
    config_whitelist_origins [of Map.empty "[]"]
  by simp

text \<open>
  Claim C7 as stated fails: with \<^verbatim>\<open>NODE_ORIGIN\<close> present but empty the sequence is
  not the two-element one.
\<close>

theorem config_present_but_empty_origin:
  "[''NODE_ORIGIN'' \<mapsto> ''''] ''NODE_ORIGIN'' = Some '''' \<and>
   WHITELIST_ORIGINS (config [''NODE_ORIGIN'' \<mapsto> '''']) \<noteq> [''http://localhost:5173'', '''']"
  by (simp add: config_def)

text \<open>
  Claim C10. The custom origin variable is tested for truthiness: set to the empty
  string it gives the allowed-origins list of the local default alone, and the whole
  configuration equals the one read when the variable is unset.
\<close>

theorem config_empty_origin_as_unset:
  "env ''NODE_ORIGIN'' = Some [] \<Longrightarrow>
     WHITELIST_ORIGINS (config env) = [''http://localhost:5173''] \<and>
     config env = config (env (''NODE_ORIGIN'' := None))"
  by (simp add: config_def)

theorem config_empty_origin_as_unset_witness:
  "WHITELIST_ORIGINS (config [''NODE_ENV'' \<mapsto> ''production'', ''NODE_ORIGIN'' \<mapsto> '''']) =
     [''http://localhost:5173''] \<and>
   config [''NODE_ENV'' \<mapsto> ''production'', ''NODE_ORIGIN'' \<mapsto> ''''] =
     config ([''NODE_ENV'' \<mapsto> ''production'', ''NODE_ORIGIN'' \<mapsto> ''''] (''NODE_ORIGIN'' := None))"
  by (rule config_empty_origin_as_unset) simp

section \<open>CORS policy evaluator: properties\<close>

text \<open>
  Claim C2, amended. The evaluator allows the request (calls back with no error and
  \<^verbatim>\<open>true\<close>) if and only if the environment is development, or the origin is absent
  or the empty string, or the origin is a member of the allowed-origins list; in every
  other case it denies, calling back with an error whose message names the rejected
  origin.
\<close>

theorem cors_decision:
  "((corOptions_origin cfg origin = [Callback None True]) =
      (NODE_ENV cfg = Some ''development'' \<or> origin = None \<or> origin = Some [] \<or>
       (\<exists>s. origin = Some s \<and> s \<in> set (WHITELIST_ORIGINS cfg)))) \<and>
   (corOptions_origin cfg origin \<noteq> [Callback None True] \<longrightarrow>
      (\<exists>s. origin = Some s \<and> s \<noteq> [] \<and>
         corOptions_origin cfg origin =
           [Callback (Some (''CORS Error: '' @ s @ '' is not allowed by CORS'')) False,
            ConsoleLog [''CORS Error: '' @ s @ '' is not allowed by CORS'']]))"
  by (auto simp: corOptions_origin_def cors_allows_def truthy_def cors_message_def template_def
      split: option.splits)

theorem cors_decision_witness:
  "corOptions_origin production (Some ''http://localhost:5173'') = [Callback None True] \<and>
   corOptions_origin production (Some ''http://evil.example'') =
     [Callback (Some ''CORS Error: http://evil.example is not allowed by CORS'') False,
      ConsoleLog [''CORS Error: http://evil.example is not allowed by CORS'']]"
  using cors_decision [of production "Some ''http://localhost:5173''"]
    cors_decision [of production "Some ''http://evil.example''"]
  by (simp add: production_def config_def)

text \<open>
  Claim C2 as stated fails: in production, an origin header that is present but empty
  is allowed, although it is not absent and not a member of the list.
\<close>

theorem cors_empty_origin_allowed:
  "NODE_ENV production \<noteq> Some ''development'' \<and>
   Some '''' \<noteq> (None :: string option) \<and>
   '''' \<notin> set (WHITELIST_ORIGINS production) \<and>
   corOptions_origin production (Some '''') = [Callback None True]"
  by (simp add: production_def config_def corOptions_origin_def cors_allows_def truthy_def)

lemma denial_calls:
  "\<not> cors_allows cfg origin \<Longrightarrow>
     corOptions_origin cfg origin =
       [Callback (Some (cors_message origin)) False, ConsoleLog [cors_message origin]]"
  by (simp add: corOptions_origin_def)

lemma production_denies_foreign: "\<not> cors_allows production (Some ''http://evil.example'')"
  by (simp add: production_def config_def cors_allows_def truthy_def)

text \<open>
  Claim C6. On every denial the callback carrying the decision is the first call and
  the diagnostic log the second: a run in which no call throws shows exactly this order,
  and in every run in which the log is observed the callback has completed before it.
\<close>

theorem cors_denial_decision_before_log:
  assumes "\<not> cors_allows cfg origin"
  shows "corOptions_origin cfg origin =
           [Callback (Some (cors_message origin)) False, ConsoleLog [cors_message origin]] \<and>
         fst (exec no_throw (corOptions_origin cfg origin)) =
           [Callback (Some (cors_message origin)) False, ConsoleLog [cors_message origin]] \<and>
         (\<forall>thr. ConsoleLog [cors_message origin]
                  \<in> set (fst (exec thr (corOptions_origin cfg origin)))
            \<longrightarrow> fst (exec thr (corOptions_origin cfg origin)) =
                  [Callback (Some (cors_message origin)) False, ConsoleLog [cors_message origin]])"
  using assms by (auto simp: denial_calls no_throw_def split: option.splits)

theorem cors_denial_decision_before_log_witness:
  "fst (exec no_throw (corOptions_origin production (Some ''http://evil.example''))) =
     [Callback (Some ''CORS Error: http://evil.example is not allowed by CORS'') False,
      ConsoleLog [''CORS Error: http://evil.example is not allowed by CORS'']]"
  using cors_denial_decision_before_log
      [OF production_denies_foreign, THEN conjunct2, THEN conjunct1]
  by (simp add: cors_message_def template_def)

section \<open>Lifecycle controller: properties\<close>






section \<open>Middleware pipeline and routes: properties\<close>

text \<open>
  Claim C5. The assembled middleware chain is, in order: CORS evaluation, JSON body
  parsing, URL-encoded body parsing (extended), cookie parsing, compression with a
  threshold of 1024 bytes, security headers, rate limiting. Rate limiting is the last
  stage, and the route mounter appends the routes after it.
\<close>

theorem middleware_chain_order:
  "app = [Cors, ExpressJson, ExpressUrlencoded True, CookieParser, Compression 1024, Helmet,
          RateLimit limiter] \<and>
   last app = RateLimit limiter \<and>
   mindSyncRoute app = app @ [Mount ''/health'' HealthHandler, Mount ''/api/v1'' AuthRoute]"
  by (simp add: app_def app_use_def express_def mindSyncRoute_def)

lemma app_layers:
  "app = [Cors, ExpressJson, ExpressUrlencoded True, CookieParser, Compression 1024, Helmet,
          RateLimit limiter]"
  by (simp add: app_def app_use_def express_def)

lemma run_layers_append:
  "run_layers cfg pk st req xs = (Next, st') \<Longrightarrow>
     run_layers cfg pk st req (xs @ ys) = run_layers cfg pk st' req ys"
  by (induction xs arbitrary: st) (auto split: prod.splits step.splits)

lemma lowercase_health: "lowercase ''/health'' = ''/health''"
  by (simp add: lowercase_def lower_def)

text \<open>A request that the chain passes on reaches the health mount when its path matches.\<close>

lemma health_mount_reached:
  assumes "mount_matches ''/health'' (req_path req)"
    and "run_layers cfg pk st req app = (Next, st')"
  shows "handle cfg pk st req = (Send (res_send pk req fresh_response health_payload), st')"
proof -
  have "mindSyncRoute app = app @ [Mount ''/health'' HealthHandler, Mount ''/api/v1'' AuthRoute]"
    by (simp add: mindSyncRoute_def app_use_def)
  then have "handle cfg pk st req =
      run_layers cfg pk st' req [Mount ''/health'' HealthHandler, Mount ''/api/v1'' AuthRoute]"
    using assms(2) by (simp add: handle_def run_layers_append)
  also have "\<dots> = (Send (res_send pk req fresh_response health_payload), st')"
    using assms(1) by (simp add: health_handler_def)
  finally show ?thesis .
qed

text \<open>The cors stage never passes a request of method OPTIONS on.\<close>

lemma cors_answers_options:
  "req_method req = ''OPTIONS'' \<Longrightarrow> cors cfg req \<noteq> Next"
  by (simp add: cors_def corOptions_origin_def)

lemma options_not_passed:
  assumes "run_layers cfg pk st req app = (Next, st')"
  shows "req_method req \<noteq> ''OPTIONS''"
proof
  assume "req_method req = ''OPTIONS''"
  then have "cors cfg req \<noteq> Next"
    by (rule cors_answers_options)
  then have "fst (run_layers cfg pk st req app) \<noteq> Next"
    by (cases "cors cfg req") (simp_all add: app_layers)
  with assms show False by simp
qed

lemma probe_forwarded:
  "run_layers cfg pass_all Map.empty probe app =
     (Next, [''203.0.113.7'' \<mapsto> \<lparr> count = 1, windowStart = 0 \<rparr>])"
  by (simp add: app_layers probe_def pass_all_def cors_def corOptions_origin_def cors_allows_def
      truthy_def rateLimit_def hit_def limiter_def)

lemma conditional_get_forwarded:
  "run_layers cfg pass_all Map.empty conditional_get app =
     (Next, [''203.0.113.7'' \<mapsto> \<lparr> count = 1, windowStart = 0 \<rparr>])"
  by (simp add: app_layers conditional_get_def probe_def pass_all_def cors_def
      corOptions_origin_def cors_allows_def truthy_def rateLimit_def hit_def limiter_def)

lemma local_delete_forwarded:
  "run_layers production pass_all Map.empty local_delete app =
     (Next, [''203.0.113.7'' \<mapsto> \<lparr> count = 1, windowStart = 0 \<rparr>])"
  by (simp add: app_layers local_delete_def pass_all_def cors_def corOptions_origin_def
      cors_allows_def truthy_def rateLimit_def hit_def limiter_def production_def config_def)

lemma local_delete_path: "prefix ''/health/'' (lowercase (req_path local_delete))"
  by (simp add: local_delete_def lowercase_def lower_def)

text \<open>
  Claim C8, amended. For every configuration state, a GET request to /health that
  every stage of the middleware chain passes on (the CORS evaluator allows it, the
  rate limiter does not reject it) and that Express does not find fresh is answered
  with status 200 and the JSON body \<^verbatim>\<open>{status: true, message: "MindSync is OK!"}\<close>;
  one that Express finds fresh is answered with status 304 and no body.
\<close>

theorem health_get_ok:
  assumes "req_method req = ''GET''" and "req_path req = ''/health''"
    and "run_layers cfg pk st req app = (Next, st')"
  shows "(\<not> pk_fresh pk req health_payload \<longrightarrow>
            handle cfg pk st req =
              (Send \<lparr> statusCode = 200,
                       body = Some (JObject [(''status'', JBool True),
                                             (''message'', JString ''MindSync is OK!'')]) \<rparr>,
               st')) \<and>
         (pk_fresh pk req health_payload \<longrightarrow>
            handle cfg pk st req = (Send \<lparr> statusCode = 304, body = None \<rparr>, st'))"
proof -
  have "mount_matches ''/health'' (req_path req)"
    using assms(2) by (simp add: mount_matches_def)
  from health_mount_reached [OF this assms(3)] show ?thesis
    using assms(1) by (simp add: res_send_def fresh_response_def health_payload_def)
qed

theorem health_get_ok_witness:
  "handle production pass_all Map.empty probe =
     (Send \<lparr> statusCode = 200,
              body = Some (JObject [(''status'', JBool True),
                                    (''message'', JString ''MindSync is OK!'')]) \<rparr>,
      [''203.0.113.7'' \<mapsto> \<lparr> count = 1, windowStart = 0 \<rparr>]) \<and>
   handle production pass_all Map.empty conditional_get =
     (Send \<lparr> statusCode = 304, body = None \<rparr>,
      [''203.0.113.7'' \<mapsto> \<lparr> count = 1, windowStart = 0 \<rparr>])"
proof
  have "\<not> pk_fresh pass_all probe health_payload"
    by (simp add: pass_all_def probe_def)
  with health_get_ok [OF _ _ probe_forwarded, of production, THEN conjunct1]
  show "handle production pass_all Map.empty probe =
     (Send \<lparr> statusCode = 200,
              body = Some (JObject [(''status'', JBool True),
                                    (''message'', JString ''MindSync is OK!'')]) \<rparr>,
      [''203.0.113.7'' \<mapsto> \<lparr> count = 1, windowStart = 0 \<rparr>])"
    by (simp add: probe_def)
  have "pk_fresh pass_all conditional_get health_payload"
    by (simp add: pass_all_def conditional_get_def probe_def)
  with health_get_ok [OF _ _ conditional_get_forwarded, of production, THEN conjunct2]
  show "handle production pass_all Map.empty conditional_get =
     (Send \<lparr> statusCode = 304, body = None \<rparr>,
      [''203.0.113.7'' \<mapsto> \<lparr> count = 1, windowStart = 0 \<rparr>])"
    by (simp add: conditional_get_def probe_def)
qed

text \<open>
  Claim C8 as stated fails: the answer depends on the configuration. The same GET
  request to /health, carrying a foreign origin, gets the fixed body in development
  and a CORS error in production.
\<close>

theorem health_get_foreign_origin:
  "fst (handle development pass_all Map.empty foreign_get) =
     Send \<lparr> statusCode = 200, body = Some health_payload \<rparr> \<and>
   fst (handle production pass_all Map.empty foreign_get) =
     NextErr ''CORS Error: http://evil.example is not allowed by CORS''"
  by (simp add: handle_def mindSyncRoute_def app_layers app_use_def foreign_get_def probe_def
      pass_all_def cors_def corOptions_origin_def cors_allows_def truthy_def rateLimit_def hit_def
      limiter_def production_def development_def config_def cors_message_def template_def
      mount_matches_def lowercase_health health_handler_def res_send_def fresh_response_def)

text \<open>
  Claim C9, amended. The health responder is mounted for every method and for the
  path /health and every path below it, compared without regard to case. A request on
  such a path that the middleware chain passes on is never an OPTIONS request (the
  cors stage answers those itself); it gets the same fixed body with status 200 for
  every method other than HEAD, unless it is a GET that Express finds fresh; a HEAD
  request that is not fresh gets status 200 and no body.
\<close>

theorem health_any_method_any_subpath:
  assumes "lowercase (req_path req) = ''/health'' \<or>
           prefix ''/health/'' (lowercase (req_path req))"
    and "run_layers cfg pk st req app = (Next, st')"
  shows "req_method req \<noteq> ''OPTIONS'' \<and>
         (req_method req \<noteq> ''HEAD'' \<and>
          \<not> (req_method req = ''GET'' \<and> pk_fresh pk req health_payload) \<longrightarrow>
            handle cfg pk st req =
              (Send \<lparr> statusCode = 200,
                       body = Some (JObject [(''status'', JBool True),
                                             (''message'', JString ''MindSync is OK!'')]) \<rparr>,
               st')) \<and>
         (req_method req = ''HEAD'' \<and> \<not> pk_fresh pk req health_payload \<longrightarrow>
            handle cfg pk st req = (Send \<lparr> statusCode = 200, body = None \<rparr>, st'))"
proof -
  have "mount_matches ''/health'' (req_path req)"
    using assms(1) by (simp add: mount_matches_def lowercase_health)
  from health_mount_reached [OF this assms(2)] options_not_passed [OF assms(2)]
  show ?thesis
    by (auto simp: res_send_def fresh_response_def health_payload_def)
qed

theorem health_any_method_any_subpath_witness:
  "req_method local_delete = ''DELETE'' \<and>
   req_path local_delete = ''/Health/Live'' \<and>
   handle production pass_all Map.empty local_delete =
     (Send \<lparr> statusCode = 200,
              body = Some (JObject [(''status'', JBool True),
                                    (''message'', JString ''MindSync is OK!'')]) \<rparr>,
      [''203.0.113.7'' \<mapsto> \<lparr> count = 1, windowStart = 0 \<rparr>])"
  using health_any_method_any_subpath
      [OF disjI2 [OF local_delete_path] local_delete_forwarded, THEN conjunct2, THEN conjunct1]
  by (simp add: local_delete_def)

text \<open>
  Claim C9 as stated fails for two methods: a HEAD request to /health is answered
  without a body, and an OPTIONS request to /health is answered by the cors stage with
  status 204 and never reaches the health responder.
\<close>

theorem health_head_and_options:
  "fst (handle development pass_all Map.empty head_probe) =
     Send \<lparr> statusCode = 200, body = None \<rparr> \<and>
   fst (handle development pass_all Map.empty options_probe) =
     Send \<lparr> statusCode = 204, body = None \<rparr>"
  by (simp add: handle_def mindSyncRoute_def app_layers app_use_def head_probe_def
      options_probe_def probe_def pass_all_def cors_def corOptions_origin_def cors_allows_def
      truthy_def rateLimit_def hit_def limiter_def development_def config_def
      mount_matches_def lowercase_health health_handler_def res_send_def fresh_response_def)

section \<open>Rate limiter: properties\<close>

lemma rateLimit_other_key:
  "req_ip r \<noteq> k \<Longrightarrow> snd (rateLimit opts st r) k = st k"
  by (simp add: rateLimit_def Let_def)

lemma rateLimit_in_window:
  assumes "st (req_ip r) = Some e" and "req_time r < windowStart e + windowMs opts"
  shows "rateLimit opts st r =
           (if limit opts < count e + 1
            then Send \<lparr> statusCode = 429, body = Some (message opts) \<rparr> else Next,
            st (req_ip r \<mapsto> e \<lparr> count := count e + 1 \<rparr>))"
  using assms by (simp add: rateLimit_def hit_def Let_def)

lemma rateLimit_new_window:
  assumes "st (req_ip r) = None \<or>
           (\<exists>e. st (req_ip r) = Some e \<and> windowStart e + windowMs opts \<le> req_time r)"
  shows "rateLimit opts st r =
           (if limit opts < 1
            then Send \<lparr> statusCode = 429, body = Some (message opts) \<rparr> else Next,
            st (req_ip r \<mapsto> \<lparr> count = 1, windowStart = req_time r \<rparr>))"
  using assms by (auto simp: rateLimit_def hit_def Let_def)

text \<open>
  With an entry for the client in the store and every later request of the client
  inside that entry's window, the decision on a request is fixed by the count so far
  plus the number of the client's requests up to and including it.
\<close>

lemma serve_in_window:
  assumes "st k = Some e"
    and "\<forall>r\<in>set rs. req_ip r = k \<longrightarrow> req_time r < windowStart e + windowMs opts"
    and "i < length rs" and "req_ip (rs ! i) = k"
  shows "serve opts st rs ! i =
           (if count e + length (filter (\<lambda>r. req_ip r = k) (take (Suc i) rs)) \<le> limit opts
            then Next else Send \<lparr> statusCode = 429, body = Some (message opts) \<rparr>)"
  using assms
proof (induction rs arbitrary: st e i)
  case Nil
  then show ?case by simp
next
  case (Cons r rs)
  show ?case
  proof (cases "req_ip r = k")
    case True
    let ?e = "e \<lparr> count := count e + 1 \<rparr>"
    have step: "rateLimit opts st r =
        (if limit opts < count e + 1
         then Send \<lparr> statusCode = 429, body = Some (message opts) \<rparr> else Next,
         st (req_ip r \<mapsto> ?e))"
      using Cons.prems(1,2) True by (intro rateLimit_in_window) auto
    show ?thesis
    proof (cases i)
      case 0
      then show ?thesis using step True by auto
    next
      case (Suc j)
      have "serve opts (st (req_ip r \<mapsto> ?e)) rs ! j =
          (if count ?e + length (filter (\<lambda>r. req_ip r = k) (take (Suc j) rs)) \<le> limit opts
           then Next else Send \<lparr> statusCode = 429, body = Some (message opts) \<rparr>)"
        using Cons.prems True Suc by (intro Cons.IH) auto
      then show ?thesis using step True Suc by simp
    qed
  next
    case False
    then obtain j where j: "i = Suc j"
      using Cons.prems(4) by (cases i) auto
    obtain s st' where r: "rateLimit opts st r = (s, st')"
      by (cases "rateLimit opts st r")
    have "st' k = Some e"
      using rateLimit_other_key [OF False, of opts st] r Cons.prems(1) by simp
    then have "serve opts st' rs ! j =
        (if count e + length (filter (\<lambda>r. req_ip r = k) (take (Suc j) rs)) \<le> limit opts
         then Next else Send \<lparr> statusCode = 429, body = Some (message opts) \<rparr>)"
      using Cons.prems j by (intro Cons.IH) auto
    then show ?thesis using r j False by simp
  qed
qed

text \<open>
  The same from a store in which the client has no entry, or one whose window has
  elapsed: the first request of the client opens a new window.
\<close>

lemma serve_new_window:
  assumes "st k = None \<or> (\<exists>e. st k = Some e \<and> windowStart e + windowMs opts \<le> start)"
    and "\<forall>r\<in>set rs. req_ip r = k \<longrightarrow> start \<le> req_time r \<and> req_time r < start + windowMs opts"
    and "i < length rs" and "req_ip (rs ! i) = k"
  shows "serve opts st rs ! i =
           (if length (filter (\<lambda>r. req_ip r = k) (take (Suc i) rs)) \<le> limit opts
            then Next else Send \<lparr> statusCode = 429, body = Some (message opts) \<rparr>)"
  using assms
proof (induction rs arbitrary: st i)
  case Nil
  then show ?case by simp
next
  case (Cons r rs)
  show ?case
  proof (cases "req_ip r = k")
    case True
    let ?e = "\<lparr> count = 1, windowStart = req_time r \<rparr>"
    have "start \<le> req_time r"
      using Cons.prems(2) True by simp
    then have "st (req_ip r) = None \<or>
        (\<exists>e. st (req_ip r) = Some e \<and> windowStart e + windowMs opts \<le> req_time r)"
      using Cons.prems(1) True by auto
    then have step: "rateLimit opts st r =
        (if limit opts < 1
         then Send \<lparr> statusCode = 429, body = Some (message opts) \<rparr> else Next,
         st (req_ip r \<mapsto> ?e))"
      by (rule rateLimit_new_window)
    show ?thesis
    proof (cases i)
      case 0
      then show ?thesis using step True by auto
    next
      case (Suc j)
      have "serve opts (st (req_ip r \<mapsto> ?e)) rs ! j =
          (if count ?e + length (filter (\<lambda>r. req_ip r = k) (take (Suc j) rs)) \<le> limit opts
           then Next else Send \<lparr> statusCode = 429, body = Some (message opts) \<rparr>)"
      proof (rule serve_in_window)
        show "(st (req_ip r \<mapsto> ?e)) k = Some ?e" using True by simp
        show "\<forall>x\<in>set rs. req_ip x = k \<longrightarrow> req_time x < windowStart ?e + windowMs opts"
          using Cons.prems(2) True by fastforce
        show "j < length rs" using Cons.prems(3) Suc by simp
        show "req_ip (rs ! j) = k" using Cons.prems(4) Suc by simp
      qed
      then show ?thesis using step True Suc by simp
    qed
  next
    case False
    then obtain j where j: "i = Suc j"
      using Cons.prems(4) by (cases i) auto
    obtain s st' where r: "rateLimit opts st r = (s, st')"
      by (cases "rateLimit opts st r")
    have "st' k = st k"
      using rateLimit_other_key [OF False, of opts st] r by simp
    then have "st' k = None \<or> (\<exists>e. st' k = Some e \<and> windowStart e + windowMs opts \<le> start)"
      using Cons.prems(1) by simp
    then have "serve opts st' rs ! j =
        (if length (filter (\<lambda>r. req_ip r = k) (take (Suc j) rs)) \<le> limit opts
         then Next else Send \<lparr> statusCode = 429, body = Some (message opts) \<rparr>)"
      using Cons.prems j by (intro Cons.IH) auto
    then show ?thesis using r j False by simp
  qed
qed

lemma limiter_rejection: "\<lparr> statusCode = 429, body = Some (message limiter) \<rparr> = too_many"
  by (simp add: too_many_def limiter_def)

text \<open>
  Claim C3. With the window of 60 seconds and the limit of 60, for the requests of one
  client key in any sequence of requests (other clients may be interleaved):
  when the client has no entry in the store, or an entry whose window has elapsed, and
  its requests all fall within 60 seconds, the first of them opens a new window and
  the client's n-th request is passed on when n is at most 60 and answered with the
  fixed error payload otherwise, so the 60th is accepted and the 61st rejected; when
  the client has an entry with count c and its requests fall within that entry's
  window, the n-th is passed on exactly when c + n is at most 60. In any state a
  request is passed on exactly when its count after the increment is at most 60, and a
  rejected request does not reach the later stages of the pipeline.
\<close>

theorem limiter_sixty_per_window:
  assumes "i < length rs" and "req_ip (rs ! i) = k"
  shows "((st k = None \<or> (\<exists>e. st k = Some e \<and> windowStart e + 60000 \<le> start)) \<and>
          (\<forall>r\<in>set rs. req_ip r = k \<longrightarrow> start \<le> req_time r \<and> req_time r < start + 60000) \<longrightarrow>
            serve limiter st rs ! i =
              (if length (filter (\<lambda>r. req_ip r = k) (take (Suc i) rs)) \<le> 60
               then Next else Send too_many)) \<and>
         (st k = Some e \<and>
          (\<forall>r\<in>set rs. req_ip r = k \<longrightarrow> req_time r < windowStart e + 60000) \<longrightarrow>
            serve limiter st rs ! i =
              (if count e + length (filter (\<lambda>r. req_ip r = k) (take (Suc i) rs)) \<le> 60
               then Next else Send too_many)) \<and>
         fst (rateLimit limiter st' r) =
           (if count (hit limiter st' (req_ip r) (req_time r)) \<le> 60
            then Next else Send too_many) \<and>
         (fst (rateLimit limiter st' r) = Send too_many \<longrightarrow>
            run_layers cfg pk st' r (RateLimit limiter # ls) = rateLimit limiter st' r)"
proof (intro conjI impI)
  assume a: "(st k = None \<or> (\<exists>e. st k = Some e \<and> windowStart e + 60000 \<le> start)) \<and>
      (\<forall>r\<in>set rs. req_ip r = k \<longrightarrow> start \<le> req_time r \<and> req_time r < start + 60000)"
  then have 1: "st k = None \<or> (\<exists>e. st k = Some e \<and> windowStart e + windowMs limiter \<le> start)"
    by (simp add: limiter_def)
  have 2: "\<forall>r\<in>set rs. req_ip r = k \<longrightarrow>
             start \<le> req_time r \<and> req_time r < start + windowMs limiter"
    using a by (simp add: limiter_def)
  from serve_new_window [where opts = limiter and st = st and k = k and rs = rs and i = i
      and start = start, OF 1 2 assms]
  show "serve limiter st rs ! i =
           (if length (filter (\<lambda>r. req_ip r = k) (take (Suc i) rs)) \<le> 60
            then Next else Send too_many)"
    by (simp add: limiter_rejection) (simp add: limiter_def)
next
  assume b: "st k = Some e \<and>
      (\<forall>r\<in>set rs. req_ip r = k \<longrightarrow> req_time r < windowStart e + 60000)"
  then have 1: "st k = Some e" by simp
  have 2: "\<forall>r\<in>set rs. req_ip r = k \<longrightarrow> req_time r < windowStart e + windowMs limiter"
    using b by (simp add: limiter_def)
  from serve_in_window [where opts = limiter and st = st and k = k and e = e and rs = rs
      and i = i, OF 1 2 assms]
  show "serve limiter st rs ! i =
           (if count e + length (filter (\<lambda>r. req_ip r = k) (take (Suc i) rs)) \<le> 60
            then Next else Send too_many)"
    by (simp add: limiter_rejection) (simp add: limiter_def)
next
  show "fst (rateLimit limiter st' r) =
           (if count (hit limiter st' (req_ip r) (req_time r)) \<le> 60
            then Next else Send too_many)"
    by (simp add: rateLimit_def Let_def limiter_rejection) (simp add: limiter_def)
next
  assume "fst (rateLimit limiter st' r) = Send too_many"
  then show "run_layers cfg pk st' r (RateLimit limiter # ls) = rateLimit limiter st' r"
    by (cases "rateLimit limiter st' r") auto
qed

lemma burst_facts:
  "length burst = 61"
  "req_ip (burst ! 59) = ''203.0.113.7''"
  "req_ip (burst ! 60) = ''203.0.113.7''"
  "req_ip (burst ! 29) = ''203.0.113.7''"
  "req_ip (burst ! 30) = ''203.0.113.7''"
  "\<forall>r\<in>set burst. req_ip r = ''203.0.113.7'' \<longrightarrow> 90000 \<le> req_time r \<and> req_time r < 90000 + 60000"
  "length (filter (\<lambda>r. req_ip r = ''203.0.113.7'') (take (Suc n) burst)) = min (Suc n) 61"
  by (simp_all add: burst_def)

theorem limiter_sixty_per_window_witness:
  "serve limiter Map.empty burst ! 59 = Next \<and>
   serve limiter Map.empty burst ! 60 = Send too_many \<and>
   serve limiter stale burst ! 59 = Next \<and>
   serve limiter stale burst ! 60 = Send too_many \<and>
   serve limiter halfway burst ! 29 = Next \<and>
   serve limiter halfway burst ! 30 = Send too_many"
proof -
  have s: "stale ''203.0.113.7'' = Some \<lparr> count = 75, windowStart = 0 \<rparr>"
    by (simp add: stale_def)
  have h: "halfway ''203.0.113.7'' = Some \<lparr> count = 30, windowStart = 60000 \<rparr>"
    by (simp add: halfway_def)
  have new: "serve limiter st burst ! i =
      (if length (filter (\<lambda>r. req_ip r = ''203.0.113.7'') (take (Suc i) burst)) \<le> 60
       then Next else Send too_many)"
    if "st ''203.0.113.7'' = None \<or>
        (\<exists>e. st ''203.0.113.7'' = Some e \<and> windowStart e + 60000 \<le> 90000)"
      and "i < length burst" and "req_ip (burst ! i) = ''203.0.113.7''" for st i
    using limiter_sixty_per_window
      [OF that(2,3), where st = st and start = 90000, THEN conjunct1] that(1) burst_facts(6)
    by blast
  have run: "serve limiter halfway burst ! i =
      (if 30 + length (filter (\<lambda>r. req_ip r = ''203.0.113.7'') (take (Suc i) burst)) \<le> 60
       then Next else Send too_many)"
    if "i < length burst" and "req_ip (burst ! i) = ''203.0.113.7''" for i
    using limiter_sixty_per_window
      [OF that, where st = halfway and e = "\<lparr> count = 30, windowStart = 60000 \<rparr>",
       THEN conjunct2, THEN conjunct1] h
    by (simp add: burst_def)
  show ?thesis
    using new [of Map.empty 59] new [of Map.empty 60] new [of stale 59] new [of stale 60]
      run [of 29] run [of 30] s
    by (simp add: burst_def)
qed

end
